theory Spec2Isabelle
  imports Complex_Main "HOL-Library.Char_ord" "HOL-Library.List_Lexorder"
begin

section \<open>Data model (src/lib/offline-storage.ts)\<close>

text \<open>
  The interfaces \<^verbatim>\<open>OfflineExpense\<close> and \<^verbatim>\<open>PendingAction\<close>. The source's field
  \<^verbatim>\<open>id\<close> is called \<open>expense_id\<close>, \<open>action_id\<close> and \<open>cat_id\<close> here, since
  \<open>id\<close> is the identity function of HOL. A field declared with \<^verbatim>\<open>?\<close> is an
  option, \<open>None\<close> standing for \<^verbatim>\<open>undefined\<close> (\<^verbatim>\<open>notes\<close>, a keyword of
  Isabelle, is \<open>notes_txt\<close>). A JavaScript \<^verbatim>\<open>number\<close> that
  the code only stores and forwards (\<^verbatim>\<open>amount\<close>) is a real; \<^verbatim>\<open>timestamp\<close>, the
  result of \<^verbatim>\<open>Date.now()\<close>, is an integer number of milliseconds. Strings are
  byte strings, compared as IndexedDB compares keys: lexicographically, unit by unit.
\<close>

datatype expense_source = splitwise | manual

record Category =
  cat_id :: string
  name :: string
  color :: string
  icon :: string

record OfflineExpense =
  expense_id :: string
  user_id :: string
  amount :: real
  description :: string
  date :: string
  currency :: string
  category_id :: "string option"
  category :: "Category option"
  payment_method :: "string option"
  notes_txt :: "string option"
  is_excluded :: "bool option"
  source :: "expense_source option"
  synced :: bool
  created_at :: string
  updated_at :: string

datatype action_kind = Create | Update | Delete

record PendingAction =
  action_id :: string
  action :: action_kind
  expense :: OfflineExpense
  timestamp :: int

section \<open>The IndexedDB object stores\<close>

text \<open>
  Both object stores are created with \<^verbatim>\<open>keyPath: 'id'\<close>
  (\<^verbatim>\<open>init\<close>, lines 57 and 65). An object store holds at most one value per key
  and \<^verbatim>\<open>getAll()\<close> on the store returns its values in ascending order of that key.
  The model keeps the values of a store as a list in key order:
  \<^verbatim>\<open>put\<close> drops the value stored under the same key and inserts the new one at its
  place in the order, \<^verbatim>\<open>delete\<close> drops the value stored under the key.
  The secondary indexes that \<^verbatim>\<open>init\<close> creates (\<^verbatim>\<open>date\<close>, \<^verbatim>\<open>synced\<close>,
  \<^verbatim>\<open>user_id\<close> on the expenses, \<^verbatim>\<open>timestamp\<close> on the pending actions) hold no
  data of their own; of the functions below none reads through one.

  The requests are modelled where they succeed: \<^verbatim>\<open>init\<close> has opened the database
  and \<^verbatim>\<open>onsuccess\<close> fires. The platform's refusals (\<^verbatim>\<open>onerror\<close>) are not part of
  the model.
\<close>

definition store_put :: "('v \<Rightarrow> string) \<Rightarrow> 'v \<Rightarrow> 'v list \<Rightarrow> 'v list" where
  "store_put key v xs = insort_key key v (filter (\<lambda>x. key x \<noteq> key v) xs)"

definition store_delete :: "('v \<Rightarrow> string) \<Rightarrow> string \<Rightarrow> 'v list \<Rightarrow> 'v list" where
  "store_delete key k xs = filter (\<lambda>x. key x \<noteq> k) xs"

record database =
  expenses :: "OfflineExpense list"
  pending :: "PendingAction list"

definition getAllExpenses :: "database \<Rightarrow> OfflineExpense list" where
  "getAllExpenses db = expenses db"

definition saveExpense :: "OfflineExpense \<Rightarrow> database \<Rightarrow> database" where
  "saveExpense e db = db\<lparr>expenses := store_put expense_id e (expenses db)\<rparr>"

text \<open>\<^verbatim>\<open>saveMultipleExpenses\<close>: one \<^verbatim>\<open>put\<close> per element, in the order of the array.\<close>

fun saveMultipleExpenses :: "OfflineExpense list \<Rightarrow> database \<Rightarrow> database" where
  "saveMultipleExpenses [] db = db"
| "saveMultipleExpenses (e # es) db = saveMultipleExpenses es (saveExpense e db)"

definition deleteExpense_store :: "string \<Rightarrow> database \<Rightarrow> database" where
  "deleteExpense_store i db = db\<lparr>expenses := store_delete expense_id i (expenses db)\<rparr>"

definition addPendingAction :: "PendingAction \<Rightarrow> database \<Rightarrow> database" where
  "addPendingAction a db = db\<lparr>pending := store_put action_id a (pending db)\<rparr>"

definition getPendingActions :: "database \<Rightarrow> PendingAction list" where
  "getPendingActions db = pending db"

definition deletePendingAction :: "string \<Rightarrow> database \<Rightarrow> database" where
  "deletePendingAction i db = db\<lparr>pending := store_delete action_id i (pending db)\<rparr>"

definition clearAll :: "database \<Rightarrow> database" where
  "clearAll db = db\<lparr>expenses := [], pending := []\<rparr>"

section \<open>The remote data service\<close>

text \<open>
  The Supabase client is not part of the repository. Of a call the hook uses only
  whether the awaited expression throws: the value it resolves to (\<^verbatim>\<open>{ data, error }\<close>)
  is discarded. So a call has three outcomes: it resolves without an error, it resolves
  with an error, or it throws. The service is a parameter of the model: a function from
  the call and the state of the service to the outcome and the next state. Every call
  and its outcome are appended to a log, \<open>calls\<close>, so that theorems can speak of the calls
  made and of their order.

  \<^verbatim>\<open>parseInt\<close> is a parameter too; its result is an integer or \<^verbatim>\<open>NaN\<close>.
\<close>

datatype js_number = NaN | Number int

record update_row =
  row_total_amount :: real
  row_description :: string
  row_expense_date :: string
  row_currency_code :: string
  row_category_id :: "js_number option"
  row_is_excluded :: bool

datatype remote_call =
    UpdateEq update_row string
  | DeleteEq string

datatype remote_outcome = Fulfilled_ok | Fulfilled_error | Rejected

text \<open>
  The object handed to \<^verbatim>\<open>.update(...)\<close> (lines 67 to 74). An empty string is falsy:
  \<^verbatim>\<open>currency || 'EUR'\<close> replaces it, and an empty or missing \<^verbatim>\<open>category_id\<close>
  gives \<^verbatim>\<open>null\<close>, here \<open>None\<close>.
\<close>

definition update_row_of :: "(string \<Rightarrow> js_number) \<Rightarrow> OfflineExpense \<Rightarrow> update_row" where
  "update_row_of parseInt e =
     \<lparr>row_total_amount = amount e,
      row_description = description e,
      row_expense_date = date e,
      row_currency_code = (if currency e = [] then ''EUR'' else currency e),
      row_category_id =
        (case category_id e of
           None \<Rightarrow> None
         | Some c \<Rightarrow> if c = [] then None else Some (parseInt c)),
      row_is_excluded = (case is_excluded e of None \<Rightarrow> False | Some b \<Rightarrow> b)\<rparr>"

section \<open>The hook \<^verbatim>\<open>useOfflineSync\<close> (src/unnamed/part_001)\<close>

text \<open>
  The state the hook works on: the database, the remote service and the log of calls,
  the React state \<^verbatim>\<open>isOnline\<close>, \<^verbatim>\<open>isSyncing\<close>, \<^verbatim>\<open>pendingCount\<close>, and
  \<open>drains\<close>, the number of activations of \<^verbatim>\<open>syncPendingActions\<close> that have passed
  the guard of line 46 and not yet reached \<^verbatim>\<open>finally\<close>. The effects that call
  \<^verbatim>\<open>syncPendingActions\<close> on their own (on return of connectivity, lines 116 to 128)
  and \<^verbatim>\<open>checkPendingActions\<close> are left out: a drain is an explicit call here.
\<close>

record 'r world =
  idb :: database
  remote :: 'r
  calls :: "(remote_call \<times> remote_outcome) list"
  isOnline :: bool
  isSyncing :: bool
  pendingCount :: nat
  drains :: nat

text \<open>
  \<^verbatim>\<open>isOnline\<close> and \<^verbatim>\<open>isSyncing\<close> are \<^verbatim>\<open>const\<close> bindings of one render;
  \<^verbatim>\<open>setIsSyncing\<close> changes the state a later render will read, never the binding.
  A callback therefore tests the values of the render that created it. These are the
  captured values of \<^verbatim>\<open>syncPendingActions\<close>; \<open>render\<close> is the callback a render
  in state \<open>w\<close> creates. \<^verbatim>\<open>updateExpense\<close> and \<^verbatim>\<open>deleteExpense\<close> are memoised
  on \<^verbatim>\<open>[isOnline]\<close> alone, so they keep the \<^verbatim>\<open>syncPendingActions\<close> of the render
  in which \<^verbatim>\<open>isOnline\<close> last changed, and test that render's \<^verbatim>\<open>isOnline\<close>.
\<close>

record sync_closure =
  cap_isOnline :: bool
  cap_isSyncing :: bool

definition render :: "'r world \<Rightarrow> sync_closure" where
  "render w = \<lparr>cap_isOnline = isOnline w, cap_isSyncing = isSyncing w\<rparr>"

definition invoke ::
  "(remote_call \<Rightarrow> 'r \<Rightarrow> remote_outcome \<times> 'r) \<Rightarrow> remote_call \<Rightarrow> 'r world
   \<Rightarrow> remote_outcome \<times> 'r world" where
  "invoke rpc c w =
     (let (out, r') = rpc c (remote w)
      in (out, w\<lparr>remote := r', calls := calls w @ [(c, out)]\<rparr>))"

text \<open>
  The \<^verbatim>\<open>switch\<close> of lines 60 to 82. The boolean is True when the statement threw,
  which only a remote call can do here. There is no case for \<^verbatim>\<open>'create'\<close>.
\<close>

definition dispatch ::
  "(string \<Rightarrow> js_number) \<Rightarrow> (remote_call \<Rightarrow> 'r \<Rightarrow> remote_outcome \<times> 'r)
   \<Rightarrow> PendingAction \<Rightarrow> 'r world \<Rightarrow> bool \<times> 'r world" where
  "dispatch parseInt rpc a w =
     (case action a of
        Update \<Rightarrow>
          (let (out, w1) =
                 invoke rpc (UpdateEq (update_row_of parseInt (expense a))
                                      (expense_id (expense a))) w
           in (out = Rejected, w1))
      | Delete \<Rightarrow>
          (let (out, w1) = invoke rpc (DeleteEq (expense_id (expense a))) w
           in if out = Rejected then (True, w1)
              else (False,
                    w1\<lparr>idb := deleteExpense_store (expense_id (expense a)) (idb w1)\<rparr>))
      | Create \<Rightarrow> (False, w))"

text \<open>The body of the \<^verbatim>\<open>for\<close> loop, lines 59 to 98: one action.\<close>

definition sync_action ::
  "(string \<Rightarrow> js_number) \<Rightarrow> (remote_call \<Rightarrow> 'r \<Rightarrow> remote_outcome \<times> 'r)
   \<Rightarrow> PendingAction \<Rightarrow> 'r world \<Rightarrow> 'r world" where
  "sync_action parseInt rpc a w =
     (let (thrown, w1) = dispatch parseInt rpc a w
      in if thrown then w1
         else
           let w2 = (if action a \<noteq> Delete
                     then w1\<lparr>idb := saveExpense ((expense a)\<lparr>synced := True\<rparr>) (idb w1)\<rparr>
                     else w1)
           in w2\<lparr>idb := deletePendingAction (action_id a) (idb w2)\<rparr>)"

fun sync_loop ::
  "(string \<Rightarrow> js_number) \<Rightarrow> (remote_call \<Rightarrow> 'r \<Rightarrow> remote_outcome \<times> 'r)
   \<Rightarrow> PendingAction list \<Rightarrow> 'r world \<Rightarrow> 'r world" where
  "sync_loop parseInt rpc [] w = w"
| "sync_loop parseInt rpc (a # as) w =
     sync_loop parseInt rpc as (sync_action parseInt rpc a w)"

text \<open>
  An activation of \<^verbatim>\<open>syncPendingActions\<close> in three parts: the guard and
  \<^verbatim>\<open>setIsSyncing(true)\<close>, which run before the first \<^verbatim>\<open>await\<close>
  (\<open>sync_trigger\<close>); the \<^verbatim>\<open>try\<close> block, lines 52 to 104 (\<open>sync_body\<close>); the
  \<^verbatim>\<open>finally\<close> block (\<open>sync_end\<close>). \<open>syncPendingActions\<close> is a whole
  activation with no other task running between its parts.
\<close>

definition sync_refused :: "sync_closure \<Rightarrow> bool" where
  "sync_refused cl = (\<not> cap_isOnline cl \<or> cap_isSyncing cl)"

definition sync_begin :: "'r world \<Rightarrow> 'r world" where
  "sync_begin w = w\<lparr>isSyncing := True, drains := Suc (drains w)\<rparr>"

definition sync_trigger :: "sync_closure \<Rightarrow> 'r world \<Rightarrow> 'r world" where
  "sync_trigger cl w = (if sync_refused cl then w else sync_begin w)"

definition sync_body ::
  "(string \<Rightarrow> js_number) \<Rightarrow> (remote_call \<Rightarrow> 'r \<Rightarrow> remote_outcome \<times> 'r)
   \<Rightarrow> 'r world \<Rightarrow> 'r world" where
  "sync_body parseInt rpc w =
     (let pending_list = getPendingActions (idb w);
          w1 = sync_loop parseInt rpc pending_list w;
          remainingPending = getPendingActions (idb w1)
      in w1\<lparr>pendingCount := length remainingPending\<rparr>)"

definition sync_end :: "'r world \<Rightarrow> 'r world" where
  "sync_end w = w\<lparr>isSyncing := False, drains := drains w - 1\<rparr>"

definition syncPendingActions ::
  "sync_closure \<Rightarrow> (string \<Rightarrow> js_number) \<Rightarrow> (remote_call \<Rightarrow> 'r \<Rightarrow> remote_outcome \<times> 'r)
   \<Rightarrow> 'r world \<Rightarrow> 'r world" where
  "syncPendingActions cl parseInt rpc w =
     (if sync_refused cl then w
      else sync_end (sync_body parseInt rpc (sync_begin w)))"

subsection \<open>Local mutations\<close>

text \<open>
  \<^verbatim>\<open>Partial<OfflineExpense>\<close>: every key may be missing (\<open>None\<close>); a key that is
  present holds a value of the field's type, which for a field declared with \<^verbatim>\<open>?\<close>
  may be \<^verbatim>\<open>undefined\<close>. \<open>spread\<close> is \<^verbatim>\<open>{ ...existing, ...updates }\<close>: a key
  present in \<^verbatim>\<open>updates\<close> wins.
\<close>

record OfflineExpense_partial =
  upd_id :: "string option"
  upd_user_id :: "string option"
  upd_amount :: "real option"
  upd_description :: "string option"
  upd_date :: "string option"
  upd_currency :: "string option"
  upd_category_id :: "string option option"
  upd_category :: "Category option option"
  upd_payment_method :: "string option option"
  upd_notes :: "string option option"
  upd_is_excluded :: "bool option option"
  upd_source :: "expense_source option option"
  upd_synced :: "bool option"
  upd_created_at :: "string option"
  upd_updated_at :: "string option"

definition override :: "'a \<Rightarrow> 'a option \<Rightarrow> 'a" where
  "override old new = (case new of None \<Rightarrow> old | Some v \<Rightarrow> v)"

definition spread :: "OfflineExpense \<Rightarrow> OfflineExpense_partial \<Rightarrow> OfflineExpense" where
  "spread e u =
     \<lparr>expense_id = override (expense_id e) (upd_id u),
      user_id = override (user_id e) (upd_user_id u),
      amount = override (amount e) (upd_amount u),
      description = override (description e) (upd_description u),
      date = override (date e) (upd_date u),
      currency = override (currency e) (upd_currency u),
      category_id = override (category_id e) (upd_category_id u),
      category = override (category e) (upd_category u),
      payment_method = override (payment_method e) (upd_payment_method u),
      notes_txt = override (notes_txt e) (upd_notes u),
      is_excluded = override (is_excluded e) (upd_is_excluded u),
      source = override (source e) (upd_source u),
      synced = override (synced e) (upd_synced u),
      created_at = override (created_at e) (upd_created_at u),
      updated_at = override (updated_at e) (upd_updated_at u)\<rparr>"

datatype error = ExpenseNotFound

text \<open>
  \<^verbatim>\<open>updateExpense\<close> and \<^verbatim>\<open>deleteExpense\<close> of the hook, each run to its return
  with no other task in between. \<open>cl\<close> is the \<^verbatim>\<open>syncPendingActions\<close> the callback
  holds. \<open>now_iso\<close>, \<open>uuid\<close> and \<open>now_ms\<close> are what \<^verbatim>\<open>new Date().toISOString()\<close>,
  \<^verbatim>\<open>crypto.randomUUID()\<close> and \<^verbatim>\<open>Date.now()\<close> return. The call
  \<^verbatim>\<open>syncPendingActions()\<close> is not awaited: when the callback returns, the activation
  it started stands at its first \<^verbatim>\<open>await\<close>.
\<close>

definition updateExpense ::
  "sync_closure \<Rightarrow> string \<Rightarrow> string \<Rightarrow> int \<Rightarrow> string \<Rightarrow> OfflineExpense_partial
   \<Rightarrow> 'r world \<Rightarrow> (error + OfflineExpense) \<times> 'r world" where
  "updateExpense cl now_iso uuid now_ms i updates w =
     (case find (\<lambda>e. expense_id e = i) (getAllExpenses (idb w)) of
        None \<Rightarrow> (Inl ExpenseNotFound, w)
      | Some existing \<Rightarrow>
          (let updatedExpense = (spread existing updates)\<lparr>synced := False, updated_at := now_iso\<rparr>;
               db1 = saveExpense updatedExpense (idb w);
               act = \<lparr>action_id = uuid, action = Update, expense = updatedExpense,
                      timestamp = now_ms\<rparr>;
               db2 = addPendingAction act db1;
               w1 = w\<lparr>idb := db2, pendingCount := length (getPendingActions db2)\<rparr>;
               w2 = (if cap_isOnline cl then sync_trigger cl w1 else w1)
           in (Inr updatedExpense, w2)))"

definition deleteExpense ::
  "sync_closure \<Rightarrow> string \<Rightarrow> int \<Rightarrow> string \<Rightarrow> 'r world \<Rightarrow> (error + unit) \<times> 'r world" where
  "deleteExpense cl uuid now_ms i w =
     (case find (\<lambda>e. expense_id e = i) (getAllExpenses (idb w)) of
        None \<Rightarrow> (Inl ExpenseNotFound, w)
      | Some existing \<Rightarrow>
          (let act = \<lparr>action_id = uuid, action = Delete, expense = existing,
                      timestamp = now_ms\<rparr>;
               db1 = addPendingAction act (idb w);
               w1 = w\<lparr>idb := db1, pendingCount := length (getPendingActions db1)\<rparr>;
               w2 = (if cap_isOnline cl then sync_trigger cl w1 else w1)
           in (Inr (), w2)))"

section \<open>Sample states\<close>

text \<open>
  Concrete records, services and states, used where a theorem is run on an input. The
  sample service keeps no state. States with a queue are built with the hook's own
  functions: an edit or a delete made offline, then the return of connectivity.
\<close>

definition expense_e1 :: OfflineExpense where
  "expense_e1 =
     \<lparr>expense_id = ''e1'', user_id = ''u1'', amount = 10, description = ''lunch'',
      date = ''2024-05-01'', currency = ''EUR'', category_id = Some ''3'', category = None,
      payment_method = None, notes_txt = None, is_excluded = None, source = Some manual,
      synced = True, created_at = ''2024-05-01T10:00:00.000Z'',
      updated_at = ''2024-05-01T10:00:00.000Z''\<rparr>"

definition expense_e2 :: OfflineExpense where
  "expense_e2 = expense_e1\<lparr>expense_id := ''e2'', description := ''taxi''\<rparr>"

definition no_updates :: OfflineExpense_partial where
  "no_updates =
     \<lparr>upd_id = None, upd_user_id = None, upd_amount = None, upd_description = None,
      upd_date = None, upd_currency = None, upd_category_id = None, upd_category = None,
      upd_payment_method = None, upd_notes = None, upd_is_excluded = None, upd_source = None,
      upd_synced = None, upd_created_at = None, upd_updated_at = None\<rparr>"

definition start_world :: "bool \<Rightarrow> OfflineExpense list \<Rightarrow> unit world" where
  "start_world online es =
     \<lparr>idb = saveMultipleExpenses es \<lparr>expenses = [], pending = []\<rparr>, remote = (), calls = [],
      isOnline = online, isSyncing = False, pendingCount = 0, drains = 0\<rparr>"

definition online_world :: "unit world" where
  "online_world = start_world True [expense_e1]"

definition rpc_ok :: "remote_call \<Rightarrow> unit \<Rightarrow> remote_outcome \<times> unit" where
  "rpc_ok c r = (Fulfilled_ok, r)"

definition rpc_error :: "remote_call \<Rightarrow> unit \<Rightarrow> remote_outcome \<times> unit" where
  "rpc_error c r = (Fulfilled_error, r)"

definition parseInt_sample :: "string \<Rightarrow> js_number" where
  "parseInt_sample s = (if s = ''3'' then Number 3 else NaN)"

text \<open>One edit of \<^verbatim>\<open>e1\<close> made offline (amount 10 to 25), then online again.\<close>

definition queued_update :: "unit world" where
  "queued_update =
     (snd (updateExpense (render (start_world False [expense_e1]))
             ''2024-05-02T08:00:00.000Z'' ''a1'' 1000 ''e1''
             (no_updates\<lparr>upd_amount := Some 25\<rparr>)
             (start_world False [expense_e1])))\<lparr>isOnline := True\<rparr>"

text \<open>
  Two edits of \<^verbatim>\<open>e1\<close> made offline, the first at time 1000 (amount 25) drawing the
  identifier \<^verbatim>\<open>b7\<close>, the second at time 2000 (amount 50) drawing \<^verbatim>\<open>a3\<close>; then
  online again.
\<close>

definition two_queued_updates :: "unit world" where
  "two_queued_updates =
     (snd (updateExpense (render (start_world False [expense_e1]))
             ''2024-05-02T08:05:00.000Z'' ''a3'' 2000 ''e1''
             (no_updates\<lparr>upd_amount := Some 50\<rparr>)
             (snd (updateExpense (render (start_world False [expense_e1]))
                     ''2024-05-02T08:00:00.000Z'' ''b7'' 1000 ''e1''
                     (no_updates\<lparr>upd_amount := Some 25\<rparr>)
                     (start_world False [expense_e1])))))\<lparr>isOnline := True\<rparr>"

text \<open>A delete of \<^verbatim>\<open>e2\<close> made offline, then online again.\<close>

definition queued_delete :: "unit world" where
  "queued_delete =
     (snd (deleteExpense (render (start_world False [expense_e2])) ''d1'' 1000 ''e2''
             (start_world False [expense_e2])))\<lparr>isOnline := True\<rparr>"

text \<open>
  A queue that holds an action of kind \<^verbatim>\<open>create\<close>, which the type
  \<^verbatim>\<open>PendingAction\<close> admits, between an update and a delete of another record.
\<close>

definition create_action :: PendingAction where
  "create_action =
     \<lparr>action_id = ''c1'', action = Create, expense = expense_e2\<lparr>synced := False\<rparr>,
      timestamp = 500\<rparr>"

definition mixed_queue :: "unit world" where
  "mixed_queue =
     queued_update
       \<lparr>idb := addPendingAction
                 \<lparr>action_id = ''d9'', action = Delete, expense = expense_e1, timestamp = 1500\<rparr>
                 (addPendingAction create_action (idb queued_update))\<rparr>"

section \<open>Facts about the object stores\<close>

lemma store_put_twice: "store_put key v (store_put key v xs) = store_put key v xs"
  by (simp add: store_put_def filter_insort_triv)

lemma find_insort_key_fresh:
  "\<forall>x \<in> set xs. key x \<noteq> key v \<Longrightarrow>
   find (\<lambda>x. key x = key v) (insort_key key v xs) = Some v"
  by (induction xs) auto

lemma find_store_put_same:
  "find (\<lambda>x. key x = key v) (store_put key v xs) = Some v"
  unfolding store_put_def by (rule find_insort_key_fresh) simp

lemma find_store_put_key:
  "key v = k \<Longrightarrow> find (\<lambda>x. key x = k) (store_put key v xs) = Some v"
  using find_store_put_same [of key v xs] by simp

lemma filter_store_put_others:
  "filter (\<lambda>x. key x \<noteq> key v) (store_put key v xs) = filter (\<lambda>x. key x \<noteq> key v) xs"
  by (simp add: store_put_def filter_insort_triv)

lemma find_insort_key_other:
  "\<not> P v \<Longrightarrow> find P (insort_key key v xs) = find P xs"
  by (induction xs) auto

lemma find_filter_weaker:
  "(\<And>x. P x \<Longrightarrow> Q x) \<Longrightarrow> find P (filter Q xs) = find P xs"
  by (induction xs) auto

lemma find_store_put_other:
  "key v \<noteq> k \<Longrightarrow> find (\<lambda>x. key x = k) (store_put key v xs) = find (\<lambda>x. key x = k) xs"
  by (simp add: store_put_def find_insort_key_other find_filter_weaker)

lemma find_store_delete_other:
  "k' \<noteq> k \<Longrightarrow> find (\<lambda>x. key x = k) (store_delete key k' xs) = find (\<lambda>x. key x = k) xs"
  by (simp add: store_delete_def find_filter_weaker)

lemma find_store_delete_same:
  "find (\<lambda>x. key x = k) (store_delete key k xs) = None"
  by (simp add: store_delete_def find_None_iff)


lemma find_missing:
  "i \<notin> expense_id ` set xs \<Longrightarrow> find (\<lambda>e. expense_id e = i) xs = None"
  by (auto simp: find_None_iff)

lemma database_fields [simp]:
  "pending (saveExpense e db) = pending db"
  "pending (deleteExpense_store i db) = pending db"
  "pending (deletePendingAction k db) = store_delete action_id k (pending db)"
  "expenses (deletePendingAction k db) = expenses db"
  "expenses (addPendingAction a db) = expenses db"
  "expenses (saveExpense e db) = store_put expense_id e (expenses db)"
  "expenses (deleteExpense_store i db) = store_delete expense_id i (expenses db)"
  by (simp_all add: saveExpense_def deleteExpense_store_def deletePendingAction_def addPendingAction_def)

section \<open>Facts about one replayed action and about the loop\<close>

lemma sync_trigger_keeps [simp]:
  "idb (sync_trigger cl w) = idb w"
  "remote (sync_trigger cl w) = remote w"
  "calls (sync_trigger cl w) = calls w"
  "isOnline (sync_trigger cl w) = isOnline w"
  "pendingCount (sync_trigger cl w) = pendingCount w"
  by (simp_all add: sync_trigger_def sync_begin_def)

lemma sync_begin_fields [simp]:
  "idb (sync_begin w) = idb w"
  "remote (sync_begin w) = remote w"
  "calls (sync_begin w) = calls w"
  "isOnline (sync_begin w) = isOnline w"
  by (simp_all add: sync_begin_def)

lemma sync_action_Create:
  "action a = Create \<Longrightarrow>
   sync_action pI rpc a w =
     w\<lparr>idb := deletePendingAction (action_id a)
                (saveExpense ((expense a)\<lparr>synced := True\<rparr>) (idb w))\<rparr>"
  by (simp add: sync_action_def dispatch_def)

lemma sync_action_Update:
  "action a = Update \<Longrightarrow>
   rpc (UpdateEq (update_row_of pI (expense a)) (expense_id (expense a))) (remote w) = (out, r') \<Longrightarrow>
   sync_action pI rpc a w =
     (if out = Rejected
      then w\<lparr>remote := r',
              calls := calls w @ [(UpdateEq (update_row_of pI (expense a)) (expense_id (expense a)), out)]\<rparr>
      else w\<lparr>remote := r',
              calls := calls w @ [(UpdateEq (update_row_of pI (expense a)) (expense_id (expense a)), out)],
              idb := deletePendingAction (action_id a)
                       (saveExpense ((expense a)\<lparr>synced := True\<rparr>) (idb w))\<rparr>)"
  by (simp add: sync_action_def dispatch_def invoke_def)

lemma sync_action_Delete:
  "action a = Delete \<Longrightarrow>
   rpc (DeleteEq (expense_id (expense a))) (remote w) = (out, r') \<Longrightarrow>
   sync_action pI rpc a w =
     (if out = Rejected
      then w\<lparr>remote := r', calls := calls w @ [(DeleteEq (expense_id (expense a)), out)]\<rparr>
      else w\<lparr>remote := r', calls := calls w @ [(DeleteEq (expense_id (expense a)), out)],
              idb := deletePendingAction (action_id a)
                       (deleteExpense_store (expense_id (expense a)) (idb w))\<rparr>)"
  by (simp add: sync_action_def dispatch_def invoke_def)

lemma sync_action_log:
  "\<exists>ys. calls (sync_action pI rpc a w) = calls w @ ys
        \<and> length ys = (if action a = Create then 0 else 1)
        \<and> (if Rejected \<in> snd ` set ys
            then idb (sync_action pI rpc a w) = idb w
            else pending (idb (sync_action pI rpc a w))
                   = store_delete action_id (action_id a) (pending (idb w)))"
proof (cases "action a")
  case Create
  then show ?thesis by (simp add: sync_action_Create)
next
  case Update
  obtain out r' where
    "rpc (UpdateEq (update_row_of pI (expense a)) (expense_id (expense a))) (remote w) = (out, r')"
    by (cases "rpc (UpdateEq (update_row_of pI (expense a)) (expense_id (expense a))) (remote w)")
  with Update show ?thesis by (simp add: sync_action_Update)
next
  case Delete
  obtain out r' where "rpc (DeleteEq (expense_id (expense a))) (remote w) = (out, r')"
    by (cases "rpc (DeleteEq (expense_id (expense a))) (remote w)")
  with Delete show ?thesis by (simp add: sync_action_Delete)
qed

lemma sync_action_react_state:
  "isOnline (sync_action pI rpc a w) = isOnline w
   \<and> isSyncing (sync_action pI rpc a w) = isSyncing w
   \<and> drains (sync_action pI rpc a w) = drains w
   \<and> pendingCount (sync_action pI rpc a w) = pendingCount w"
proof (cases "action a")
  case Create
  then show ?thesis by (simp add: sync_action_Create)
next
  case Update
  obtain out r' where
    "rpc (UpdateEq (update_row_of pI (expense a)) (expense_id (expense a))) (remote w) = (out, r')"
    by (cases "rpc (UpdateEq (update_row_of pI (expense a)) (expense_id (expense a))) (remote w)")
  with Update show ?thesis by (simp add: sync_action_Update)
next
  case Delete
  obtain out r' where "rpc (DeleteEq (expense_id (expense a))) (remote w) = (out, r')"
    by (cases "rpc (DeleteEq (expense_id (expense a))) (remote w)")
  with Delete show ?thesis by (simp add: sync_action_Delete)
qed

lemma sync_loop_react_state:
  "isOnline (sync_loop pI rpc as w) = isOnline w
   \<and> isSyncing (sync_loop pI rpc as w) = isSyncing w
   \<and> drains (sync_loop pI rpc as w) = drains w
   \<and> pendingCount (sync_loop pI rpc as w) = pendingCount w"
  by (induction as arbitrary: w) (simp_all add: sync_action_react_state)

lemma sync_loop_log:
  "\<exists>ys. calls (sync_loop pI rpc as w) = calls w @ ys
        \<and> length ys = length (filter (\<lambda>a. action a \<noteq> Create) as)
        \<and> (Rejected \<notin> snd ` set ys \<longrightarrow>
             pending (idb (sync_loop pI rpc as w))
               = filter (\<lambda>x. action_id x \<notin> action_id ` set as) (pending (idb w)))"
proof (induction as arbitrary: w)
  case Nil
  then show ?case by simp
next
  case (Cons a as)
  let ?w1 = "sync_action pI rpc a w"
  obtain ys1 where ys1: "calls ?w1 = calls w @ ys1"
    and len1: "length ys1 = (if action a = Create then 0 else 1)"
    and eff1: "if Rejected \<in> snd ` set ys1
            then idb ?w1 = idb w
            else pending (idb ?w1) = store_delete action_id (action_id a) (pending (idb w))"
    using sync_action_log [of pI rpc a w] by blast
  obtain ys2 where ys2: "calls (sync_loop pI rpc as ?w1) = calls ?w1 @ ys2"
    and len2: "length ys2 = length (filter (\<lambda>a. action a \<noteq> Create) as)"
    and eff2: "Rejected \<notin> snd ` set ys2 \<longrightarrow>
             pending (idb (sync_loop pI rpc as ?w1))
               = filter (\<lambda>x. action_id x \<notin> action_id ` set as) (pending (idb ?w1))"
    using Cons.IH [of ?w1] by blast
  have c: "calls (sync_loop pI rpc (a # as) w) = calls w @ (ys1 @ ys2)"
    using ys1 ys2 by simp
  have l: "length (ys1 @ ys2) = length (filter (\<lambda>a. action a \<noteq> Create) (a # as))"
    using len1 len2 by simp
  have e: "pending (idb (sync_loop pI rpc (a # as) w)) =
      filter (\<lambda>x. action_id x \<notin> action_id ` set (a # as)) (pending (idb w))"
    if "Rejected \<notin> snd ` set (ys1 @ ys2)"
  proof -
    from that have n1: "Rejected \<notin> snd ` set ys1" and n2: "Rejected \<notin> snd ` set ys2" by auto
    from eff1 n1 have p1: "pending (idb ?w1) = filter (\<lambda>x. action_id x \<noteq> action_id a) (pending (idb w))"
      by (simp add: store_delete_def)
    from eff2 n2 have "pending (idb (sync_loop pI rpc as ?w1))
               = filter (\<lambda>x. action_id x \<notin> action_id ` set as) (pending (idb ?w1))" by simp
    also have "\<dots> = filter (\<lambda>x. action_id x \<notin> action_id ` set (a # as)) (pending (idb w))"
      unfolding p1 filter_filter by (rule filter_cong) auto
    finally show ?thesis by simp
  qed
  from c l e show ?case by blast
qed

lemma sync_action_other_record:
  assumes "expense_id (expense b) \<noteq> k"
  shows "find (\<lambda>e. expense_id e = k) (expenses (idb (sync_action pI rpc b w)))
           = find (\<lambda>e. expense_id e = k) (expenses (idb w))"
proof (cases "action b")
  case Create
  with assms show ?thesis by (simp add: sync_action_Create find_store_put_other)
next
  case Update
  obtain out r' where
    "rpc (UpdateEq (update_row_of pI (expense b)) (expense_id (expense b))) (remote w) = (out, r')"
    by (cases "rpc (UpdateEq (update_row_of pI (expense b)) (expense_id (expense b))) (remote w)")
  with Update assms show ?thesis by (simp add: sync_action_Update find_store_put_other)
next
  case Delete
  obtain out r' where "rpc (DeleteEq (expense_id (expense b))) (remote w) = (out, r')"
    by (cases "rpc (DeleteEq (expense_id (expense b))) (remote w)")
  with Delete assms show ?thesis by (simp add: sync_action_Delete find_store_delete_other)
qed

lemma sync_loop_other_records:
  "\<forall>b \<in> set bs. expense_id (expense b) \<noteq> k \<Longrightarrow>
   find (\<lambda>e. expense_id e = k) (expenses (idb (sync_loop pI rpc bs w)))
     = find (\<lambda>e. expense_id e = k) (expenses (idb w))"
  by (induction bs arbitrary: w) (simp_all add: sync_action_other_record)

lemma sync_loop_append:
  "sync_loop pI rpc (xs @ ys) w = sync_loop pI rpc ys (sync_loop pI rpc xs w)"
  by (induction xs arbitrary: w) simp_all

lemma sync_action_queue_shrinks:
  "set (pending (idb (sync_action pI rpc a w))) \<subseteq> set (pending (idb w))"
  using sync_action_log [of pI rpc a w]
  by (auto simp: store_delete_def split: if_splits)

lemma sync_loop_queue_shrinks:
  "set (pending (idb (sync_loop pI rpc as w))) \<subseteq> set (pending (idb w))"
proof (induction as arbitrary: w)
  case Nil
  show ?case by simp
next
  case (Cons a as)
  have "set (pending (idb (sync_loop pI rpc as (sync_action pI rpc a w))))
          \<subseteq> set (pending (idb (sync_action pI rpc a w)))"
    by (rule Cons.IH)
  also have "\<dots> \<subseteq> set (pending (idb w))" by (rule sync_action_queue_shrinks)
  finally show ?case by simp
qed

lemma sync_loop_call_count:
  "length (calls (sync_loop pI rpc as w))
     = length (calls w) + length (filter (\<lambda>a. action a \<noteq> Create) as)"
  using sync_loop_log [of pI rpc as w] by auto

lemma drain_fields:
  assumes "\<not> sync_refused cl"
  shows "idb (syncPendingActions cl pI rpc w)
           = idb (sync_loop pI rpc (getPendingActions (idb w)) (sync_begin w))"
    and "calls (syncPendingActions cl pI rpc w)
           = calls (sync_loop pI rpc (getPendingActions (idb w)) (sync_begin w))"
    and "remote (syncPendingActions cl pI rpc w)
           = remote (sync_loop pI rpc (getPendingActions (idb w)) (sync_begin w))"
  using assms by (simp_all add: syncPendingActions_def sync_body_def sync_end_def Let_def)

lemma drain_of_empty_queue:
  assumes "getPendingActions (idb w) = []"
  shows "calls (syncPendingActions cl pI rpc w) = calls w"
    and "remote (syncPendingActions cl pI rpc w) = remote w"
    and "idb (syncPendingActions cl pI rpc w) = idb w"
  using assms by (simp_all add: syncPendingActions_def sync_body_def sync_end_def Let_def)

section \<open>Facts about the guard, a thrown call and a local delete\<close>

lemma drain_refused:
  "sync_refused cl \<Longrightarrow> syncPendingActions cl pI rpc w = w"
  by (simp add: syncPendingActions_def)

lemma fresh_closure_refuses:
  "\<not> isOnline w \<or> isSyncing w \<Longrightarrow> syncPendingActions (render w) pI rpc w = w"
  by (simp add: syncPendingActions_def sync_refused_def render_def)

lemma thrown_update_left_untouched:
  "action a = Update \<Longrightarrow>
   fst (rpc (UpdateEq (update_row_of pI (expense a)) (expense_id (expense a))) (remote w)) = Rejected \<Longrightarrow>
   idb (sync_action pI rpc a w) = idb w"
  by (cases "rpc (UpdateEq (update_row_of pI (expense a)) (expense_id (expense a))) (remote w)")
     (simp add: sync_action_Update)

lemma thrown_delete_left_untouched:
  "action a = Delete \<Longrightarrow>
   fst (rpc (DeleteEq (expense_id (expense a))) (remote w)) = Rejected \<Longrightarrow>
   idb (sync_action pI rpc a w) = idb w"
  by (cases "rpc (DeleteEq (expense_id (expense a))) (remote w)")
     (simp add: sync_action_Delete)

lemma delete_keeps_record:
  assumes "find (\<lambda>e. expense_id e = i) (getAllExpenses (idb w)) = Some existing"
  shows "\<exists>w'. deleteExpense cl uuid now_ms i w = (Inr (), w')
           \<and> getAllExpenses (idb w') = getAllExpenses (idb w)
           \<and> find (\<lambda>a. action_id a = uuid) (getPendingActions (idb w'))
               = Some \<lparr>action_id = uuid, action = Delete, expense = existing, timestamp = now_ms\<rparr>
           \<and> calls w' = calls w \<and> remote w' = remote w"
  using assms
  by (simp add: deleteExpense_def Let_def getAllExpenses_def addPendingAction_def
      getPendingActions_def find_store_put_key)

lemmas model_defs = updateExpense_def deleteExpense_def render_def sync_trigger_def
  sync_refused_def sync_begin_def sync_end_def sync_body_def syncPendingActions_def
  sync_action_def dispatch_def invoke_def update_row_of_def spread_def override_def
  saveExpense_def addPendingAction_def getAllExpenses_def getPendingActions_def
  deletePendingAction_def deleteExpense_store_def store_put_def store_delete_def Let_def

lemmas sample_defs = expense_e1_def no_updates_def start_world_def online_world_def
  rpc_ok_def parseInt_sample_def

lemma update_with_other_id_keeps_old_record:
  "map (\<lambda>e. (expense_id e, amount e, synced e))
     (getAllExpenses (idb (snd (updateExpense (render online_world) ''2024-05-02T08:00:00.000Z''
                                   ''a1'' 1000 ''e1''
                                   (no_updates\<lparr>upd_id := Some ''e9'', upd_amount := Some 50\<rparr>)
                                   online_world))))
     = [(''e1'', 10, True), (''e9'', 50, False)]"
  by (simp add: model_defs sample_defs)

section \<open>The claims\<close>

subsection \<open>Failure of a remote call during a drain\<close>

text \<open>
  Claim C1. An action whose remote call fails, by throwing or by returning an error,
  is to stay in the queue with its record untouched. The code keeps the action only when
  the call throws (lemmas \<open>thrown_update_left_untouched\<close> and
  \<open>thrown_delete_left_untouched\<close>). The value a call resolves to is never read, so
  a call that returns an error counts as a success: with one queued update of
  \<^verbatim>\<open>e1\<close> and a service that answers every call with an error, the drain makes
  the call, gets the error, empties the queue and turns the record's \<^verbatim>\<open>synced\<close>
  from false to true.
\<close>

theorem returned_error_treated_as_success:
  "map (\<lambda>a. (action_id a, action a, expense_id (expense a)))
       (getPendingActions (idb queued_update)) = [(''a1'', Update, ''e1'')]
   \<and> map (\<lambda>e. (expense_id e, synced e)) (getAllExpenses (idb queued_update))
       = [(''e1'', False)]
   \<and> map snd (calls (syncPendingActions (render queued_update) parseInt_sample rpc_error
                        queued_update)) = [Fulfilled_error]
   \<and> getPendingActions (idb (syncPendingActions (render queued_update) parseInt_sample
                               rpc_error queued_update)) = []
   \<and> map (\<lambda>e. (expense_id e, synced e))
         (getAllExpenses (idb (syncPendingActions (render queued_update) parseInt_sample
                                 rpc_error queued_update)))
       = [(''e1'', True)]"
  by (simp add: model_defs sample_defs queued_update_def rpc_error_def)

subsection \<open>Order of replay\<close>

text \<open>
  Claim C2. The queue is to be listed and replayed in ascending order of the enqueue
  timestamp. \<^verbatim>\<open>getPendingActions\<close> reads the object store itself, whose order is
  that of the key \<^verbatim>\<open>id\<close>, a random UUID; the \<^verbatim>\<open>timestamp\<close> index is never read.
  With two edits of \<^verbatim>\<open>e1\<close>, the earlier one (time 1000, amount 25) under the
  identifier \<^verbatim>\<open>b7\<close> and the later one (time 2000, amount 50) under \<^verbatim>\<open>a3\<close>,
  the queue lists the later edit first, a drain in which both calls succeed sends
  amount 50 before amount 25, and the local record, which showed 50, shows 25 afterwards.
\<close>

theorem replay_order_is_by_action_id:
  "map (\<lambda>a. (action_id a, timestamp a, amount (expense a)))
       (getPendingActions (idb two_queued_updates))
     = [(''a3'', 2000, 50), (''b7'', 1000, 25)]
   \<and> map (\<lambda>(c, out). case c of UpdateEq row i \<Rightarrow> (row_total_amount row, i) | DeleteEq i \<Rightarrow> (0, i))
       (calls (syncPendingActions (render two_queued_updates) parseInt_sample rpc_ok
                 two_queued_updates))
     = [(50, ''e1''), (25, ''e1'')]
   \<and> map snd (calls (syncPendingActions (render two_queued_updates) parseInt_sample rpc_ok
                 two_queued_updates)) = [Fulfilled_ok, Fulfilled_ok]
   \<and> map amount (getAllExpenses (idb two_queued_updates)) = [50]
   \<and> map amount (getAllExpenses (idb (syncPendingActions (render two_queued_updates)
                                        parseInt_sample rpc_ok two_queued_updates))) = [25]"
  by (simp add: model_defs sample_defs two_queued_updates_def)

subsection \<open>At most one drain at a time\<close>

text \<open>
  Claim C3. A drain is to be refused while another is in progress, so that of two
  triggers back to back exactly one runs. The guard tests the \<^verbatim>\<open>isSyncing\<close> that
  the callback captured when it was created (lemma \<open>drain_refused\<close>); it refuses when
  the callback is one created after \<^verbatim>\<open>setIsSyncing(true)\<close> took effect
  (lemma \<open>fresh_closure_refuses\<close>). Two calls of one and the same callback both
  pass: online, with no drain running, the callback of that render has captured
  \<^verbatim>\<open>isSyncing\<close> false; its first call sets \<^verbatim>\<open>isSyncing\<close> and starts a drain;
  its second call starts another while the first has not finished. \<^verbatim>\<open>updateExpense\<close>, which keeps the callback of
  the render in which \<^verbatim>\<open>isOnline\<close> last changed, does so on two edits in a row.
\<close>

theorem stale_guard_admits_second_drain:
  "render online_world = \<lparr>cap_isOnline = True, cap_isSyncing = False\<rparr>
   \<and> isSyncing (sync_trigger (render online_world) online_world)
   \<and> drains (sync_trigger (render online_world) online_world) = 1
   \<and> drains (sync_trigger (render online_world)
               (sync_trigger (render online_world) online_world)) = 2
   \<and> drains (snd (updateExpense (render online_world) ''2024-05-02T08:05:00.000Z'' ''a3'' 2000
                    ''e1'' (no_updates\<lparr>upd_amount := Some 50\<rparr>)
                    (snd (updateExpense (render online_world) ''2024-05-02T08:00:00.000Z''
                            ''b7'' 1000 ''e1'' (no_updates\<lparr>upd_amount := Some 25\<rparr>)
                            online_world)))) = 2"
  by (simp add: model_defs sample_defs)

subsection \<open>Optimistic update\<close>



subsection \<open>Conservative delete\<close>

text \<open>
  Claim C5. \<^verbatim>\<open>deleteExpense\<close> only enqueues a delete action and leaves the record
  in the local store (lemma \<open>delete_keeps_record\<close>); the record is to disappear only
  after a drain in which the remote delete succeeded. The drain removes the record
  whenever the remote call does not throw: with a queued delete of \<^verbatim>\<open>e2\<close> and a
  service that answers with an error, the record is in the store before the drain and
  gone after it, together with the action.
\<close>

theorem failed_delete_removes_record:
  "getAllExpenses (idb queued_delete) = [expense_e2]
   \<and> map (\<lambda>a. (action_id a, action a, expense_id (expense a)))
         (getPendingActions (idb queued_delete)) = [(''d1'', Delete, ''e2'')]
   \<and> calls (syncPendingActions (render queued_delete) parseInt_sample rpc_error queued_delete)
       = [(DeleteEq ''e2'', Fulfilled_error)]
   \<and> getAllExpenses (idb (syncPendingActions (render queued_delete) parseInt_sample rpc_error
                            queued_delete)) = []
   \<and> getPendingActions (idb (syncPendingActions (render queued_delete) parseInt_sample rpc_error
                               queued_delete)) = []"
  by (simp add: model_defs sample_defs expense_e2_def queued_delete_def rpc_error_def)

subsection \<open>Mutation of a record that is not stored\<close>

text \<open>
  Claim C6. When no record is stored under \<open>i\<close>, \<^verbatim>\<open>updateExpense\<close> and
  \<^verbatim>\<open>deleteExpense\<close> fail with the error "Expense not found" and leave the whole
  state as it was: no action enqueued, no record created or changed.
\<close>

theorem mutation_of_missing_record_rejected:
  assumes "i \<notin> expense_id ` set (getAllExpenses (idb w))"
  shows "updateExpense cl now_iso uuid now_ms i updates w = (Inl ExpenseNotFound, w)
       \<and> deleteExpense cl uuid now_ms i w = (Inl ExpenseNotFound, w)"
  using find_missing [OF assms] by (simp add: updateExpense_def deleteExpense_def)

theorem mutation_of_missing_record_rejected_witness:
  "''missing-id'' \<notin> expense_id ` set (getAllExpenses (idb online_world))
   \<and> updateExpense (render online_world) ''2024-05-02T08:00:00.000Z'' ''a1'' 1000 ''missing-id''
        (no_updates\<lparr>upd_amount := Some 50\<rparr>) online_world = (Inl ExpenseNotFound, online_world)
   \<and> deleteExpense (render online_world) ''a1'' 1000 ''missing-id'' online_world
        = (Inl ExpenseNotFound, online_world)"
proof -
  have h: "''missing-id'' \<notin> expense_id ` set (getAllExpenses (idb online_world))"
    by (simp add: model_defs sample_defs)
  show ?thesis
    by (rule conjI [OF h mutation_of_missing_record_rejected [OF h]])
qed

subsection \<open>Replaying twice\<close>

text \<open>
  Claim C7. After a drain that ran and in which every remote call made succeeded, the
  queue is empty; a second drain, with whatever callback and service, then makes no
  remote call: the log of calls and the state of the service are those the first drain
  left.
\<close>

theorem replay_idempotent:
  assumes run: "\<not> sync_refused cl"
    and ok: "\<forall>e \<in> set (drop (length (calls w)) (calls (syncPendingActions cl pI rpc w))).
               snd e = Fulfilled_ok"
  shows "getPendingActions (idb (syncPendingActions cl pI rpc w)) = []
       \<and> calls (syncPendingActions cl2 pI2 rpc2 (syncPendingActions cl pI rpc w))
           = calls (syncPendingActions cl pI rpc w)
       \<and> remote (syncPendingActions cl2 pI2 rpc2 (syncPendingActions cl pI rpc w))
           = remote (syncPendingActions cl pI rpc w)"
proof -
  let ?w1 = "syncPendingActions cl pI rpc w"
  let ?q = "getPendingActions (idb w)"
  obtain ys where ys: "calls (sync_loop pI rpc ?q (sync_begin w)) = calls (sync_begin w) @ ys"
    and eff: "Rejected \<notin> snd ` set ys \<longrightarrow>
             pending (idb (sync_loop pI rpc ?q (sync_begin w)))
               = filter (\<lambda>x. action_id x \<notin> action_id ` set ?q) (pending (idb (sync_begin w)))"
    using sync_loop_log [of pI rpc ?q "sync_begin w"] by blast
  have "calls ?w1 = calls w @ ys"
    using ys drain_fields(2) [OF run, of pI rpc w] by simp
  with ok have "\<forall>e \<in> set ys. snd e = Fulfilled_ok" by simp
  then have "Rejected \<notin> snd ` set ys" by auto
  with eff have "pending (idb ?w1) = filter (\<lambda>x. action_id x \<notin> action_id ` set ?q) (pending (idb w))"
    using drain_fields(1) [OF run, of pI rpc w] by simp
  also have "\<dots> = []"
    by (simp add: getPendingActions_def filter_empty_conv)
  finally have empty: "getPendingActions (idb ?w1) = []"
    by (simp add: getPendingActions_def)
  from empty drain_of_empty_queue(1,2) [OF empty] show ?thesis by simp
qed

theorem replay_idempotent_witness:
  "\<not> sync_refused (render two_queued_updates)
   \<and> map snd (drop (length (calls two_queued_updates))
                (calls (syncPendingActions (render two_queued_updates) parseInt_sample rpc_ok
                          two_queued_updates)))
       = [Fulfilled_ok, Fulfilled_ok]
   \<and> length (getPendingActions (idb two_queued_updates)) = 2
   \<and> getPendingActions (idb (syncPendingActions (render two_queued_updates) parseInt_sample
                               rpc_ok two_queued_updates)) = []
   \<and> calls (syncPendingActions (render online_world) parseInt_sample rpc_ok
              (syncPendingActions (render two_queued_updates) parseInt_sample rpc_ok
                 two_queued_updates))
       = calls (syncPendingActions (render two_queued_updates) parseInt_sample rpc_ok
                  two_queued_updates)
   \<and> remote (syncPendingActions (render online_world) parseInt_sample rpc_ok
              (syncPendingActions (render two_queued_updates) parseInt_sample rpc_ok
                 two_queued_updates))
       = remote (syncPendingActions (render two_queued_updates) parseInt_sample rpc_ok
                  two_queued_updates)"
proof -
  let ?made = "drop (length (calls two_queued_updates))
                 (calls (syncPendingActions (render two_queued_updates) parseInt_sample rpc_ok
                           two_queued_updates))"
  have h1: "\<not> sync_refused (render two_queued_updates)"
    by (simp add: model_defs sample_defs two_queued_updates_def)
  have outcomes: "map snd ?made = [Fulfilled_ok, Fulfilled_ok]"
    by (simp add: model_defs sample_defs two_queued_updates_def)
  have "set (map snd ?made) = {Fulfilled_ok}"
    unfolding outcomes by simp
  then have h2: "\<forall>e \<in> set ?made. snd e = Fulfilled_ok"
    by auto
  have h3: "length (getPendingActions (idb two_queued_updates)) = 2"
    by (simp add: model_defs sample_defs two_queued_updates_def)
  from h1 outcomes h3 replay_idempotent [OF h1 h2, of "render online_world" parseInt_sample rpc_ok]
  show ?thesis by blast
qed

subsection \<open>Saving a record\<close>

text \<open>
  Claim C8. \<^verbatim>\<open>saveExpense\<close> is an idempotent insert-or-replace keyed by the
  identifier: saving a record twice leaves the database as saving it once does; after
  the save the record found under its identifier is the saved one, whatever was stored
  there before; the records stored under other identifiers are the same, in the same
  order, and the pending-action store is the same.
\<close>

theorem saveExpense_idempotent_replace:
  "saveExpense r (saveExpense r db) = saveExpense r db
   \<and> find (\<lambda>e. expense_id e = expense_id r) (getAllExpenses (saveExpense r db)) = Some r
   \<and> filter (\<lambda>e. expense_id e \<noteq> expense_id r) (getAllExpenses (saveExpense r db))
       = filter (\<lambda>e. expense_id e \<noteq> expense_id r) (getAllExpenses db)
   \<and> getPendingActions (saveExpense r db) = getPendingActions db"
  by (simp add: saveExpense_def getAllExpenses_def getPendingActions_def
      store_put_twice find_store_put_same filter_store_put_others)

subsection \<open>An action of kind create in the queue\<close>

text \<open>
  Claim C9. Let a drain run on a queue that holds an action \<open>a\<close> of kind create, none
  of the actions after it being about the same record. After the drain no action with
  the identifier of \<open>a\<close> is queued, the local store holds under the snapshot's
  identifier the snapshot with \<^verbatim>\<open>synced\<close> true, and the drain has made one remote
  call for each of the other actions that is not of kind create and none for \<open>a\<close>.
  Replaying \<open>a\<close> alone, in any state, leaves the log of calls and the service as
  they are.
\<close>

theorem create_action_replayed_locally:
  assumes cr: "action a = Create"
    and run: "\<not> sync_refused cl"
    and queue: "getPendingActions (idb w) = pre @ a # post"
    and last: "\<forall>b \<in> set post. expense_id (expense b) \<noteq> expense_id (expense a)"
  shows "action_id a \<notin> action_id ` set (getPendingActions (idb (syncPendingActions cl pI rpc w)))
       \<and> find (\<lambda>e. expense_id e = expense_id (expense a))
            (getAllExpenses (idb (syncPendingActions cl pI rpc w)))
           = Some ((expense a)\<lparr>synced := True\<rparr>)
       \<and> length (calls (syncPendingActions cl pI rpc w))
           = length (calls w) + length (filter (\<lambda>b. action b \<noteq> Create) (pre @ post))
       \<and> calls (sync_action pI rpc a v) = calls v
       \<and> remote (sync_action pI rpc a v) = remote v"
proof -
  let ?w0 = "sync_loop pI rpc pre (sync_begin w)"
  let ?w1 = "sync_action pI rpc a ?w0"
  let ?w2 = "sync_loop pI rpc post ?w1"
  have loop: "sync_loop pI rpc (getPendingActions (idb w)) (sync_begin w) = ?w2"
    by (simp add: queue sync_loop_append)
  have idb: "idb (syncPendingActions cl pI rpc w) = idb ?w2"
    using drain_fields(1) [OF run, of pI rpc w] loop by simp
  have w1: "?w1 = ?w0\<lparr>idb := deletePendingAction (action_id a)
                (saveExpense ((expense a)\<lparr>synced := True\<rparr>) (idb ?w0))\<rparr>"
    using cr by (rule sync_action_Create)
  have "action_id a \<notin> action_id ` set (pending (idb ?w1))"
    unfolding w1 by (auto simp: store_delete_def)
  moreover have "set (pending (idb ?w2)) \<subseteq> set (pending (idb ?w1))"
    by (rule sync_loop_queue_shrinks)
  ultimately have gone: "action_id a \<notin> action_id ` set (pending (idb ?w2))" by blast
  have "find (\<lambda>e. expense_id e = expense_id (expense a)) (expenses (idb ?w2))
          = find (\<lambda>e. expense_id e = expense_id (expense a)) (expenses (idb ?w1))"
    using last by (rule sync_loop_other_records)
  also have "\<dots> = Some ((expense a)\<lparr>synced := True\<rparr>)"
    unfolding w1 by (simp add: find_store_put_key)
  finally have stored: "find (\<lambda>e. expense_id e = expense_id (expense a)) (expenses (idb ?w2))
          = Some ((expense a)\<lparr>synced := True\<rparr>)" .
  have count: "length (calls (syncPendingActions cl pI rpc w))
           = length (calls w) + length (filter (\<lambda>b. action b \<noteq> Create) (pre @ post))"
    using drain_fields(2) [OF run, of pI rpc w] cr
    by (simp add: queue sync_loop_call_count)
  have step: "calls (sync_action pI rpc a v) = calls v \<and> remote (sync_action pI rpc a v) = remote v"
    using cr by (simp add: sync_action_Create)
  from gone stored count step show ?thesis
    by (simp add: idb getPendingActions_def getAllExpenses_def)
qed

theorem create_action_replayed_locally_witness:
  "action create_action = Create
   \<and> \<not> sync_refused (render mixed_queue)
   \<and> getPendingActions (idb mixed_queue)
       = [\<lparr>action_id = ''a1'', action = Update,
           expense = expense_e1\<lparr>amount := 25, synced := False,
                                updated_at := ''2024-05-02T08:00:00.000Z''\<rparr>,
           timestamp = 1000\<rparr>]
         @ create_action
         # [\<lparr>action_id = ''d9'', action = Delete, expense = expense_e1, timestamp = 1500\<rparr>]
   \<and> map (\<lambda>b. expense_id (expense b))
         [\<lparr>action_id = ''d9'', action = Delete, expense = expense_e1, timestamp = 1500\<rparr>]
       = [''e1'']
   \<and> expense_id (expense create_action) = ''e2''
   \<and> action_id create_action
       \<notin> action_id ` set (getPendingActions
                           (idb (syncPendingActions (render mixed_queue) parseInt_sample rpc_ok
                                   mixed_queue)))
   \<and> find (\<lambda>e. expense_id e = expense_id (expense create_action))
        (getAllExpenses (idb (syncPendingActions (render mixed_queue) parseInt_sample rpc_ok
                                mixed_queue)))
       = Some ((expense create_action)\<lparr>synced := True\<rparr>)
   \<and> length (calls (syncPendingActions (render mixed_queue) parseInt_sample rpc_ok mixed_queue))
       = length (calls mixed_queue) + 2"
proof -
  let ?pre = "[\<lparr>action_id = ''a1'', action = Update,
           expense = expense_e1\<lparr>amount := 25, synced := False,
                                updated_at := ''2024-05-02T08:00:00.000Z''\<rparr>,
           timestamp = 1000\<rparr>]"
  let ?post = "[\<lparr>action_id = ''d9'', action = Delete, expense = expense_e1, timestamp = 1500\<rparr>]"
  have h1: "action create_action = Create"
    by (simp add: create_action_def)
  have h2: "\<not> sync_refused (render mixed_queue)"
    by (simp add: model_defs sample_defs expense_e2_def queued_update_def create_action_def mixed_queue_def)
  have h3: "getPendingActions (idb mixed_queue) = ?pre @ create_action # ?post"
    by (simp add: model_defs sample_defs expense_e2_def queued_update_def create_action_def mixed_queue_def)
  have ids: "map (\<lambda>b. expense_id (expense b)) ?post = [''e1'']"
    "expense_id (expense create_action) = ''e2''"
    by (simp_all add: sample_defs expense_e2_def create_action_def)
  then have h4: "\<forall>b \<in> set ?post. expense_id (expense b) \<noteq> expense_id (expense create_action)"
    by simp
  have n: "length (filter (\<lambda>b. action b \<noteq> Create) (?pre @ ?post)) = 2"
    by simp
  from h1 h2 h3 ids n
    create_action_replayed_locally [OF h1 h2 h3 h4, of parseInt_sample rpc_ok mixed_queue]
  show ?thesis by simp
qed

subsection \<open>Fields forced by an update\<close>

text \<open>
  Claim C10. When a record is stored under \<open>i\<close>, the record that
  \<^verbatim>\<open>updateExpense\<close> returns has \<^verbatim>\<open>synced\<close> false and \<^verbatim>\<open>updated_at\<close> the
  current time whatever \<^verbatim>\<open>updates\<close> holds, also when it holds \<^verbatim>\<open>synced: true\<close>
  or an \<^verbatim>\<open>updated_at\<close> of its own, and that record is the one the local store holds
  under its identifier afterwards.
\<close>

theorem update_forces_unsynced_and_stamp:
  assumes "find (\<lambda>e. expense_id e = i) (getAllExpenses (idb w)) = Some existing"
  shows "\<exists>r w'. updateExpense cl now_iso uuid now_ms i updates w = (Inr r, w')
           \<and> synced r = False \<and> updated_at r = now_iso
           \<and> find (\<lambda>e. expense_id e = expense_id r) (getAllExpenses (idb w')) = Some r"
  using assms
  by (simp add: updateExpense_def Let_def getAllExpenses_def saveExpense_def
      addPendingAction_def find_store_put_key)

theorem update_forces_unsynced_and_stamp_witness:
  "find (\<lambda>e. expense_id e = ''e1'') (getAllExpenses (idb online_world)) = Some expense_e1
   \<and> (\<exists>r w'. updateExpense (render online_world) ''2024-05-02T08:00:00.000Z'' ''a1'' 1000 ''e1''
                 (no_updates\<lparr>upd_synced := Some True,
                              upd_updated_at := Some ''1999-01-01T00:00:00.000Z''\<rparr>)
                 online_world = (Inr r, w')
           \<and> synced r = False \<and> updated_at r = ''2024-05-02T08:00:00.000Z''
           \<and> find (\<lambda>e. expense_id e = expense_id r) (getAllExpenses (idb w')) = Some r)"
proof -
  have h: "find (\<lambda>e. expense_id e = ''e1'') (getAllExpenses (idb online_world)) = Some expense_e1"
    by (simp add: model_defs sample_defs)
  show ?thesis
    by (rule conjI [OF h update_forces_unsynced_and_stamp [OF h]])
qed

end
